theory Spec2Isabelle
  imports Complex_Main
begin

section \<open>Box-detail page: data model\<close>

text \<open>
  The box-detail page (\<^verbatim>\<open>BoxDetailPage\<close>) polls two endpoints and derives its display
  values from two slices of React state. A JavaScript number is modelled as the
  \<^typ>\<open>real\<close> it denotes (no NaN or infinities), and the page's multiplication and
  division round their exact result to the nearest double, as IEEE 754 binary64 does;
  \<^verbatim>\<open>null\<close> and \<^verbatim>\<open>undefined\<close> are both \<^term>\<open>None\<close>. A field of a response body that the derivations read is optional in the
  model, because the body is whatever JSON the server sent.
\<close>

record SensorRow =
  id_num :: int
  temperatureC :: real
  temperatureF :: real
  humidity :: real
  ppm_nh3 :: real
  ppm_co2 :: real
  ppm_c2h5oh :: real
  timestamp :: string

record DataResponse =
  count :: "int option"
  data :: "SensorRow list option"

record RawPrediction =
  classification_text :: "string option"
  classification_prob :: "real option"
  raw_confidence :: "real option"
  rsl_hours :: "real option"
  raw_status :: "string option"

record Prediction =
  classification :: "string option"
  probability :: "real option"
  confidence :: "real option"
  raw_prediction :: "RawPrediction option"

record PredictResponse =
  status :: "string option"
  prediction :: "Prediction option"
  blynk_updated :: "bool option"
  blynk_pin :: "string option"
  blynk_value :: "real option"
  data_points_used :: "int option"

text \<open>The five \<^verbatim>\<open>useState\<close> cells that the poller writes.\<close>

record ViewState =
  dataRows :: "SensorRow list"
  loadingData :: bool
  predict :: "PredictResponse option"
  loadingPredict :: bool
  errorMsg :: "string option"

definition initialState :: ViewState where
  "initialState =
     \<lparr>dataRows = [], loadingData = True, predict = None, loadingPredict = True,
      errorMsg = None\<rparr>"

section \<open>JavaScript operators used by the page\<close>

datatype js_error = TypeError

text \<open>Reading a property of \<^verbatim>\<open>null\<close> or \<^verbatim>\<open>undefined\<close> throws a TypeError.\<close>

definition deref :: "'a option \<Rightarrow> js_error + 'a" where
  "deref v = (case v of None \<Rightarrow> Inl TypeError | Some x \<Rightarrow> Inr x)"

text \<open>\<^verbatim>\<open>a?.f\<close>: short-circuits to undefined when \<^verbatim>\<open>a\<close> is nullish.\<close>

definition opt_chain :: "'a option \<Rightarrow> ('a \<Rightarrow> 'b option) \<Rightarrow> 'b option" where
  "opt_chain v f = (case v of None \<Rightarrow> None | Some x \<Rightarrow> f x)"

text \<open>\<^verbatim>\<open>a ?? d\<close>: the default only when \<^verbatim>\<open>a\<close> is nullish.\<close>

definition nullish :: "'a option \<Rightarrow> 'a \<Rightarrow> 'a" where
  "nullish v d = (case v of None \<Rightarrow> d | Some x \<Rightarrow> x)"

text \<open>\<^verbatim>\<open>a || d\<close> on a number: the default when \<^verbatim>\<open>a\<close> is nullish or zero (falsy).\<close>

definition or_num :: "real option \<Rightarrow> real \<Rightarrow> real" where
  "or_num v d = (case v of None \<Rightarrow> d | Some x \<Rightarrow> if x = 0 then d else x)"

text \<open>\<^verbatim>\<open>a || d\<close> on a string: the default when \<^verbatim>\<open>a\<close> is undefined or empty (falsy).\<close>

definition or_str :: "string option \<Rightarrow> string \<Rightarrow> string" where
  "or_str v d = (case v of None \<Rightarrow> d | Some x \<Rightarrow> if x = [] then d else x)"

definition Math_floor :: "real \<Rightarrow> int" where
  "Math_floor x = \<lfloor>x\<rfloor>"

text \<open>\<^verbatim>\<open>Math.round\<close> rounds to the nearest integer, a tie going towards plus infinity.\<close>

definition Math_round :: "real \<Rightarrow> int" where
  "Math_round x = \<lfloor>x + 1 / 2\<rfloor>"

text \<open>
  \<^verbatim>\<open>n % d\<close> is the remainder of the division truncated towards zero, so it has the
  sign of \<^verbatim>\<open>n\<close>. The remainder of two doubles is a double, so nothing is rounded.
\<close>

definition js_trunc :: "real \<Rightarrow> int" where
  "js_trunc x = (if x < 0 then \<lceil>x\<rceil> else \<lfloor>x\<rfloor>)"

definition js_rem :: "real \<Rightarrow> real \<Rightarrow> real" where
  "js_rem n d = n - d * of_int (js_trunc (n / d))"

subsection \<open>Double-precision arithmetic\<close>

text \<open>
  The binary exponent of a positive number is found by halving it down to below 2, or by
  doubling it up to at least 1.
\<close>

function exp_up :: "real \<Rightarrow> nat" where
  "exp_up x = (if 2 \<le> x then Suc (exp_up (x / 2)) else 0)"
  by pat_completeness auto
termination
proof (relation "measure (\<lambda>x. nat \<lfloor>x\<rfloor>)")
  fix x :: real
  assume "2 \<le> x"
  then have "\<lfloor>x / 2\<rfloor> \<le> \<lfloor>x - 1\<rfloor>" by (intro floor_mono) simp
  moreover have "2 \<le> \<lfloor>x\<rfloor>" using \<open>2 \<le> x\<close> by (simp add: le_floor_iff)
  ultimately show "(x / 2, x) \<in> measure (\<lambda>x. nat \<lfloor>x\<rfloor>)" by simp
qed simp

function exp_down :: "real \<Rightarrow> nat" where
  "exp_down x = (if 0 < x \<and> x < 1 then Suc (exp_down (2 * x)) else 0)"
  by pat_completeness auto
termination
proof (relation "measure (\<lambda>x. nat \<lceil>1 / x\<rceil>)")
  fix x :: real
  assume "0 < x \<and> x < 1"
  then have x: "0 < x" "x < 1" by simp_all
  then have y: "1 < 1 / x" by simp
  have "1 / (2 * x) \<le> of_int (\<lceil>1 / x\<rceil> - 1)"
  proof (cases "2 \<le> 1 / x")
    case True
    have "1 / (2 * x) = (1 / x) / 2" by simp
    also have "\<dots> \<le> 1 / x - 1" using True by simp
    also have "\<dots> \<le> of_int (\<lceil>1 / x\<rceil> - 1)" by simp
    finally show ?thesis .
  next
    case False
    then have "1 / (2 * x) < 1" using x by (simp add: field_simps)
    moreover have "2 \<le> \<lceil>1 / x\<rceil>" using y by (simp add: le_ceiling_iff)
    then have "(1::real) \<le> of_int (\<lceil>1 / x\<rceil> - 1)" by linarith
    ultimately show ?thesis by linarith
  qed
  then have "\<lceil>1 / (2 * x)\<rceil> \<le> \<lceil>1 / x\<rceil> - 1" by (simp only: ceiling_le_iff)
  moreover have "0 < \<lceil>1 / x\<rceil>" using x by (simp add: less_ceiling_iff)
  ultimately show "(2 * x, x) \<in> measure (\<lambda>x. nat \<lceil>1 / x\<rceil>)" by simp
qed simp

declare exp_up.simps [simp del] exp_down.simps [simp del]

text \<open>
  The exponent of the binade a number lies in; below the smallest normal number,
  \<open>2 powi - 1022\<close>, the doubles are equally spaced (subnormal).
\<close>

definition binade :: "real \<Rightarrow> int" where
  "binade x =
     max (if 1 \<le> \<bar>x\<bar> then int (exp_up \<bar>x\<bar>) else - int (exp_down \<bar>x\<bar>)) (- 1022)"

text \<open>Rounding to the nearest integer, a tie going to the even one.\<close>

definition round_even :: "real \<Rightarrow> int" where
  "round_even y =
     (let n = \<lfloor>y\<rfloor>; f = y - of_int n
      in if f < 1 / 2 then n else if 1 / 2 < f then n + 1 else if even n then n else n + 1)"

text \<open>
  The double nearest to a real: a multiple of the spacing of its binade, which is
  \<open>2 powi (binade x - 52)\<close> (53 significant bits). Results beyond the largest double,
  which the machine turns into Infinity, are outside this model.
\<close>

definition fl :: "real \<Rightarrow> real" where
  "fl x = (let u = 2 powi (binade x - 52) in u * of_int (round_even (x / u)))"

definition is_double :: "real \<Rightarrow> bool" where
  "is_double x \<longleftrightarrow> fl x = x \<and> \<bar>x\<bar> < 2 ^ 1024"

text \<open>\<^verbatim>\<open>a * b\<close> and \<^verbatim>\<open>a / b\<close> on numbers: the exact result, rounded once.\<close>

definition js_mul :: "real \<Rightarrow> real \<Rightarrow> real" where
  "js_mul a b = fl (a * b)"

definition js_div :: "real \<Rightarrow> real \<Rightarrow> real" where
  "js_div a b = fl (a / b)"

text \<open>
  The placeholder glyphs of the page, as UTF-8 bytes: the em dash U+2014, the horizontal
  ellipsis U+2026, the degree sign U+00B0 and the bullet U+2022.
\<close>

definition em_dash :: string where
  "em_dash = [CHR 0xE2, CHR 0x80, CHR 0x94]"

definition ellipsis :: string where
  "ellipsis = [CHR 0xE2, CHR 0x80, CHR 0xA6]"

definition degree_sign :: string where
  "degree_sign = [CHR 0xC2, CHR 0xB0]"

definition bullet :: string where
  "bullet = [CHR 0xE2, CHR 0x80, CHR 0xA2]"

text \<open>
  Number and date formatting is done by the JavaScript runtime and depends on its locale;
  the page's formatters are parameters of the model.
\<close>

record Builtins =
  toFixed1 :: "real \<Rightarrow> string"
  numToString :: "real \<Rightarrow> string"
  toLocaleTimeString :: "string \<Rightarrow> string"

section \<open>Requests\<close>

datatype param_value = PNum int | PStr string

record request =
  path :: string
  params :: "(string \<times> param_value) list"
  timeout_ms :: nat

text \<open>
  \<^verbatim>\<open>const K_PARAM = process.env.NEXT_PUBLIC_K || '...'\<close>; the argument is the value of
  the environment variable, \<^term>\<open>None\<close> when it is unset.
\<close>

definition K_default :: string where
  "K_default = ''ggodjob gpt terbaik, i trust you''"

definition K_PARAM :: "string option \<Rightarrow> string" where
  "K_PARAM env_K = or_str env_K K_default"

definition dataRequest :: "string option \<Rightarrow> request" where
  "dataRequest env_K =
     \<lparr>path = ''/data'', params = [(''limit'', PNum 50), (''k'', PStr (K_PARAM env_K))],
      timeout_ms = 10000\<rparr>"

definition predictRequest :: request where
  "predictRequest = \<lparr>path = ''/predict'', params = [], timeout_ms = 10000\<rparr>"

section \<open>The poller\<close>

text \<open>
  An axios call either resolves with the response body (any 2xx status) or rejects with an
  error whose \<^verbatim>\<open>message\<close> is kept. The body itself may be empty.
\<close>

datatype 'a axios_result = Resolved "'a option" | Rejected string

definition fetchDataRows_start :: "ViewState \<Rightarrow> ViewState" where
  "fetchDataRows_start s = s\<lparr>loadingData := True\<rparr>"

definition fetchDataRows_settle :: "DataResponse axios_result \<Rightarrow> ViewState \<Rightarrow> ViewState" where
  "fetchDataRows_settle r s =
     (case r of
        Resolved body \<Rightarrow> s\<lparr>dataRows := nullish (opt_chain body data) []\<rparr>
      | Rejected msg \<Rightarrow> s\<lparr>errorMsg := Some msg\<rparr>)\<lparr>loadingData := False\<rparr>"

definition fetchPredict_start :: "ViewState \<Rightarrow> ViewState" where
  "fetchPredict_start s = s\<lparr>loadingPredict := True\<rparr>"

definition fetchPredict_settle :: "PredictResponse axios_result \<Rightarrow> ViewState \<Rightarrow> ViewState" where
  "fetchPredict_settle r s =
     (case r of
        Resolved body \<Rightarrow> s\<lparr>predict := body\<rparr>
      | Rejected msg \<Rightarrow> s\<lparr>errorMsg := Some msg\<rparr>)\<lparr>loadingPredict := False\<rparr>"

text \<open>
  The page's life is a sequence of events: each tick starts both requests, and each request
  settles later, in any order.
\<close>

datatype event =
  DataStart
| PredictStart
| DataSettle "DataResponse axios_result"
| PredictSettle "PredictResponse axios_result"

fun step :: "event \<Rightarrow> ViewState \<Rightarrow> ViewState" where
  "step DataStart s = fetchDataRows_start s"
| "step PredictStart s = fetchPredict_start s"
| "step (DataSettle r) s = fetchDataRows_settle r s"
| "step (PredictSettle r) s = fetchPredict_settle r s"

fun run :: "event list \<Rightarrow> ViewState \<Rightarrow> ViewState" where
  "run [] s = s"
| "run (e # es) s = run es (step e s)"

text \<open>
  One tick of the interval: both requests are issued together, then the two completions
  arrive; the flag says whether the sensor-data request settles first.
\<close>

definition tick ::
  "bool \<Rightarrow> DataResponse axios_result \<Rightarrow> PredictResponse axios_result \<Rightarrow> event list" where
  "tick data_first rd rp =
     [DataStart, PredictStart] @
     (if data_first then [DataSettle rd, PredictSettle rp]
      else [PredictSettle rp, DataSettle rd])"

section \<open>Derived helpers\<close>

text \<open>
  \<^verbatim>\<open>const latest = dataRows[0] || null\<close>: reading index 0 of an empty array gives
  undefined, which is falsy; a row object is truthy.
\<close>

definition latest :: "ViewState \<Rightarrow> SensorRow option" where
  "latest s = (case dataRows s of [] \<Rightarrow> None | r # _ \<Rightarrow> Some r)"

definition classification_text_of :: "ViewState \<Rightarrow> string" where
  "classification_text_of s =
     nullish (opt_chain (opt_chain (predict s) prediction) classification) em_dash"

text \<open>
  \<^verbatim>\<open>predict ? Math.round((predict.prediction.probability || 0) * 100) : null\<close>: the
  property \<^verbatim>\<open>probability\<close> is read from \<^verbatim>\<open>predict.prediction\<close> without optional
  chaining.
\<close>

definition probabilityPct :: "ViewState \<Rightarrow> js_error + int option" where
  "probabilityPct s =
     (case predict s of
        None \<Rightarrow> Inr None
      | Some p \<Rightarrow>
          (case deref (prediction p) of
             Inl e \<Rightarrow> Inl e
           | Inr pr \<Rightarrow> Inr (Some (Math_round (js_mul (or_num (probability pr) 0) 100)))))"

text \<open>
  \<^verbatim>\<open>predict?.prediction?.confidence ?? null\<close>: the \<^verbatim>\<open>?? null\<close> turns undefined into
  null, and both are \<^term>\<open>None\<close> here.
\<close>

definition confidencePct :: "ViewState \<Rightarrow> real option" where
  "confidencePct s = opt_chain (opt_chain (predict s) prediction) confidence"

definition rslHours :: "ViewState \<Rightarrow> real option" where
  "rslHours s =
     opt_chain (opt_chain (opt_chain (predict s) prediction) raw_prediction) rsl_hours"

definition rslDays :: "ViewState \<Rightarrow> int option" where
  "rslDays s =
     (case rslHours s of Some h \<Rightarrow> Some (Math_floor (js_div h 24)) | None \<Rightarrow> None)"

definition rslRemHours :: "ViewState \<Rightarrow> int option" where
  "rslRemHours s = (case rslHours s of Some h \<Rightarrow> Some (Math_round (js_rem h 24)) | None \<Rightarrow> None)"

subsection \<open>Chart series\<close>

text \<open>
  \<^verbatim>\<open>Array.prototype.reverse\<close> swaps the elements at \<^verbatim>\<open>lower\<close> and
  \<^verbatim>\<open>len - lower - 1\<close> for \<^verbatim>\<open>lower\<close> from 0 up to the middle, in place.
\<close>

function reverse_loop :: "'a list \<Rightarrow> nat \<Rightarrow> 'a list" where
  "reverse_loop xs lower =
     (if lower < length xs div 2
      then reverse_loop
             (xs[lower := xs ! (length xs - lower - 1), length xs - lower - 1 := xs ! lower])
             (lower + 1)
      else xs)"
  by pat_completeness auto
termination
  by (relation "measure (\<lambda>(xs, lower). length xs div 2 - lower)") auto

definition js_reverse :: "'a list \<Rightarrow> 'a list" where
  "js_reverse xs = reverse_loop xs 0"

text \<open>
  Arrays are objects: a store maps an array reference (an index into the store) to the
  array's contents. The spread \<^verbatim>\<open>[...a]\<close> allocates a new array with the same elements;
  \<^verbatim>\<open>b.reverse()\<close> overwrites the array \<^verbatim>\<open>b\<close> and returns the same reference.
\<close>

type_synonym 'a store = "'a list list"

definition spread :: "'a store \<Rightarrow> nat \<Rightarrow> 'a store \<times> nat" where
  "spread h a = (h @ [h ! a], length h)"

definition reverse_at :: "'a store \<Rightarrow> nat \<Rightarrow> 'a store \<times> nat" where
  "reverse_at h b = (h[b := js_reverse (h ! b)], b)"

text \<open>\<^verbatim>\<open>const rowsAsc = [...dataRows].reverse()\<close>, on the store.\<close>

definition rowsAsc_store :: "'a store \<Rightarrow> nat \<Rightarrow> 'a store \<times> nat" where
  "rowsAsc_store h a = (case spread h a of (h1, b) \<Rightarrow> reverse_at h1 b)"

text \<open>The value of \<^verbatim>\<open>rowsAsc\<close> in a render whose state array is \<^verbatim>\<open>dataRows\<close>.\<close>

definition rowsAsc :: "ViewState \<Rightarrow> SensorRow list" where
  "rowsAsc s = (case rowsAsc_store [dataRows s] 0 of (h, b) \<Rightarrow> h ! b)"

definition co2Series :: "Builtins \<Rightarrow> ViewState \<Rightarrow> (string \<times> real) list" where
  "co2Series B s = map (\<lambda>r. (toLocaleTimeString B (timestamp r), ppm_co2 r)) (rowsAsc s)"

definition nh3Series :: "Builtins \<Rightarrow> ViewState \<Rightarrow> (string \<times> real) list" where
  "nh3Series B s = map (\<lambda>r. (toLocaleTimeString B (timestamp r), ppm_nh3 r)) (rowsAsc s)"

definition ethanolSeries :: "Builtins \<Rightarrow> ViewState \<Rightarrow> (string \<times> real) list" where
  "ethanolSeries B s = map (\<lambda>r. (toLocaleTimeString B (timestamp r), ppm_c2h5oh r)) (rowsAsc s)"

subsection \<open>Displayed texts\<close>

text \<open>
  Each card shows the ellipsis while its source is loading, then the value of the newest
  row, or the dash when there is no row: \<^verbatim>\<open>loadingData ? '...' : latest ? `...` : '-'\<close>.
  The property reads of \<^verbatim>\<open>latest\<close> are behind the truthiness test.
\<close>

definition sensorCard ::
  "(SensorRow \<Rightarrow> string) \<Rightarrow> ViewState \<Rightarrow> js_error + string" where
  "sensorCard render s =
     (if loadingData s then Inr ellipsis
      else if latest s \<noteq> None
      then (case deref (latest s) of Inl e \<Rightarrow> Inl e | Inr r \<Rightarrow> Inr (render r))
      else Inr em_dash)"

definition temperatureCard :: "Builtins \<Rightarrow> ViewState \<Rightarrow> js_error + string" where
  "temperatureCard B = sensorCard (\<lambda>r. toFixed1 B (temperatureC r) @ degree_sign @ ''C'')"

definition humidityCard :: "Builtins \<Rightarrow> ViewState \<Rightarrow> js_error + string" where
  "humidityCard B = sensorCard (\<lambda>r. numToString B (humidity r) @ ''%'')"

definition co2Card :: "Builtins \<Rightarrow> ViewState \<Rightarrow> js_error + string" where
  "co2Card B = sensorCard (\<lambda>r. numToString B (ppm_co2 r) @ '' ppm'')"

definition nh3Card :: "Builtins \<Rightarrow> ViewState \<Rightarrow> js_error + string" where
  "nh3Card B = sensorCard (\<lambda>r. numToString B (ppm_nh3 r) @ '' ppm'')"

definition ethanolCard :: "Builtins \<Rightarrow> ViewState \<Rightarrow> js_error + string" where
  "ethanolCard B = sensorCard (\<lambda>r. numToString B (ppm_c2h5oh r) @ '' ppm'')"

text \<open>
  The status line: \<^verbatim>\<open>probabilityPct\<close> and \<^verbatim>\<open>confidencePct\<close> are computed in the
  component body, before the loading flag is looked at.
\<close>

definition statusLine :: "Builtins \<Rightarrow> ViewState \<Rightarrow> js_error + string" where
  "statusLine B s =
     (case probabilityPct s of
        Inl e \<Rightarrow> Inl e
      | Inr pp \<Rightarrow>
          Inr (if loadingPredict s then ''Calculating'' @ ellipsis
               else (case (pp, confidencePct s) of
                       (Some a, Some c) \<Rightarrow>
                         ''Prob: '' @ numToString B (of_int a) @ ''% '' @ bullet @
                         '' Confidence: '' @ numToString B c @ ''%''
                     | _ \<Rightarrow> em_dash)))"

definition shelfLifeCard :: "Builtins \<Rightarrow> ViewState \<Rightarrow> string" where
  "shelfLifeCard B s =
     (if loadingPredict s then ellipsis
      else (case (rslHours s, rslDays s, rslRemHours s) of
              (Some h, Some d, Some r) \<Rightarrow>
                numToString B (of_int d) @ ''d '' @ numToString B (of_int r) @ ''h''
            | _ \<Rightarrow> em_dash))"

section \<open>Notions the properties are stated with\<close>

text \<open>The requests a run issues: each start event sends one request.\<close>

fun requests_of :: "string option \<Rightarrow> event \<Rightarrow> request list" where
  "requests_of env_K DataStart = [dataRequest env_K]"
| "requests_of env_K PredictStart = [predictRequest]"
| "requests_of env_K (DataSettle r) = []"
| "requests_of env_K (PredictSettle r) = []"

definition issued :: "string option \<Rightarrow> event list \<Rightarrow> request list" where
  "issued env_K es = concat (map (requests_of env_K) es)"

text \<open>The failure an event reports, and the most recent failure of a history.\<close>

fun failure_of :: "event \<Rightarrow> string option" where
  "failure_of (DataSettle (Rejected m)) = Some m"
| "failure_of (PredictSettle (Rejected m)) = Some m"
| "failure_of e = None"

fun last_failure :: "event list \<Rightarrow> string option" where
  "last_failure [] = None"
| "last_failure (e # es) =
     (case last_failure es of Some m \<Rightarrow> Some m | None \<Rightarrow> failure_of e)"

text \<open>
  The rows a successful sensor-data response delivers (none when the body or its
  \<^verbatim>\<open>data\<close> field is missing), and the rows of the most recent successful response of a
  history.
\<close>

fun rows_of :: "event \<Rightarrow> SensorRow list option" where
  "rows_of (DataSettle (Resolved body)) = Some (nullish (opt_chain body data) [])"
| "rows_of e = None"

fun last_rows :: "event list \<Rightarrow> SensorRow list option" where
  "last_rows [] = None"
| "last_rows (e # es) = (case last_rows es of Some rows \<Rightarrow> Some rows | None \<Rightarrow> rows_of e)"


section \<open>Sample inputs\<close>

definition sample_raw :: "real \<Rightarrow> RawPrediction" where
  "sample_raw h =
     \<lparr>classification_text = Some ''Fresh'', classification_prob = Some (8734 / 10000),
      raw_confidence = Some 92, rsl_hours = Some h, raw_status = Some ''success''\<rparr>"

definition sample_prediction :: "real \<Rightarrow> real \<Rightarrow> real \<Rightarrow> Prediction" where
  "sample_prediction q c h =
     \<lparr>classification = Some ''Fresh'', probability = Some q, confidence = Some c,
      raw_prediction = Some (sample_raw h)\<rparr>"

definition sample_response :: "real \<Rightarrow> real \<Rightarrow> real \<Rightarrow> PredictResponse" where
  "sample_response q c h =
     \<lparr>status = Some ''success'', prediction = Some (sample_prediction q c h),
      blynk_updated = None, blynk_pin = None, blynk_value = None, data_points_used = None\<rparr>"

definition sample_state :: "real \<Rightarrow> real \<Rightarrow> real \<Rightarrow> ViewState" where
  "sample_state q c h =
     \<lparr>dataRows = [], loadingData = False, predict = Some (sample_response q c h),
      loadingPredict = False, errorMsg = None\<rparr>"

text \<open>An error body of the prediction endpoint: a status and no \<^verbatim>\<open>prediction\<close> object.\<close>

definition error_response :: PredictResponse where
  "error_response =
     \<lparr>status = Some ''error'', prediction = None,
      blynk_updated = None, blynk_pin = None, blynk_value = None, data_points_used = None\<rparr>"

definition sample_row :: "int \<Rightarrow> real \<Rightarrow> SensorRow" where
  "sample_row n v =
     \<lparr>id_num = n, temperatureC = 4, temperatureF = 392 / 10, humidity = 60,
      ppm_nh3 = v, ppm_co2 = 400 + v, ppm_c2h5oh = 2 * v,
      timestamp = ''2025-01-01T00:00:00Z''\<rparr>"

definition sample_builtins :: Builtins where
  "sample_builtins =
     \<lparr>toFixed1 = (\<lambda>x. ''n''), numToString = (\<lambda>x. ''n''), toLocaleTimeString = (\<lambda>t. t)\<rparr>"

section \<open>The poller: frame properties\<close>

lemma run_append: "run (es @ fs) s = run fs (run es s)"
  by (induction es arbitrary: s) simp_all

lemmas poller_defs =
  fetchDataRows_start_def fetchDataRows_settle_def fetchPredict_start_def
  fetchPredict_settle_def

text \<open>
  C1. In a tick where the sensor-data request fails and the prediction request succeeds,
  whichever settles first, the sensor rows (and so the newest row) are what they were
  before the tick, the prediction slice is the response just received, the error message
  is the failure's message, and both loading flags are down. In particular, after a fully
  successful tick delivering \<open>rows1\<close> and such a second tick, the rows are \<open>rows1\<close> and the
  prediction is that of the second tick.
\<close>

theorem partial_failure_isolation:
  "dataRows (run (tick order (Rejected msg) (Resolved body)) s) = dataRows s \<and>
   latest (run (tick order (Rejected msg) (Resolved body)) s) = latest s \<and>
   predict (run (tick order (Rejected msg) (Resolved body)) s) = body \<and>
   errorMsg (run (tick order (Rejected msg) (Resolved body)) s) = Some msg \<and>
   \<not> loadingData (run (tick order (Rejected msg) (Resolved body)) s) \<and>
   \<not> loadingPredict (run (tick order (Rejected msg) (Resolved body)) s) \<and>
   dataRows (run (tick o1 (Resolved (Some \<lparr>count = c, data = Some rows1\<rparr>)) (Resolved p1) @
                  tick order (Rejected msg) (Resolved body)) s) = rows1 \<and>
   predict (run (tick o1 (Resolved (Some \<lparr>count = c, data = Some rows1\<rparr>)) (Resolved p1) @
                  tick order (Rejected msg) (Resolved body)) s) = body \<and>
   errorMsg (run (tick o1 (Resolved (Some \<lparr>count = c, data = Some rows1\<rparr>)) (Resolved p1) @
                  tick order (Rejected msg) (Resolved body)) s) = Some msg"
  by (simp add: run_append tick_def latest_def poller_defs nullish_def opt_chain_def)

section \<open>Double-precision rounding\<close>

lemma exp_up_bounds: "1 \<le> x \<Longrightarrow> 2 ^ exp_up x \<le> x \<and> x < 2 ^ Suc (exp_up x)"
proof (induction x rule: exp_up.induct)
  case (1 x)
  show ?case
  proof (cases "2 \<le> x")
    case True
    then have "2 ^ exp_up (x / 2) \<le> x / 2 \<and> x / 2 < 2 ^ Suc (exp_up (x / 2))"
      using 1 by simp
    moreover have "exp_up x = Suc (exp_up (x / 2))"
      using True by (subst exp_up.simps) simp
    ultimately show ?thesis by simp
  next
    case False
    then have "exp_up x = 0" by (subst exp_up.simps) simp
    then show ?thesis using False 1 by simp
  qed
qed





lemma binade_ge: "- 1022 \<le> binade x"
  by (simp add: binade_def)

lemma binade_less_one: "\<bar>x\<bar> < 1 \<Longrightarrow> binade x \<le> 0"
  by (simp add: binade_def)

lemma round_even_error: "\<bar>of_int (round_even y) - y\<bar> \<le> 1 / 2"
  unfolding round_even_def Let_def by (auto simp: abs_le_iff)


lemma fl_error: "\<bar>fl x - x\<bar> \<le> 2 powi (binade x - 53)"
proof -
  define u :: real where "u = 2 powi (binade x - 52)"
  have u: "0 < u" by (simp add: u_def)
  have "fl x - x = u * (of_int (round_even (x / u)) - x / u)"
    using u by (simp add: fl_def Let_def u_def [symmetric] algebra_simps)
  then have "\<bar>fl x - x\<bar> = u * \<bar>of_int (round_even (x / u)) - x / u\<bar>"
    using u by (simp add: abs_mult)
  also have "\<dots> \<le> u * (1 / 2)"
    using u round_even_error by (intro mult_left_mono) simp_all
  also have "\<dots> = 2 powi (binade x - 53)"
    by (simp add: u_def power_int_diff)
  finally show ?thesis .
qed




lemma binade_small:
  assumes "0 \<le> x" and "x < 2 ^ n"
  shows "binade x < int n \<or> binade x \<le> 0"
proof (cases "1 \<le> x")
  case True
  then have "2 ^ exp_up x \<le> x" using exp_up_bounds by blast
  then have "(2::real) ^ exp_up x < 2 ^ n" using assms(2) by (rule le_less_trans)
  then have "exp_up x < n" by simp
  moreover have "binade x = int (exp_up x)" using True by (simp add: binade_def)
  ultimately show ?thesis by simp
next
  case False
  then show ?thesis using assms(1) by (simp add: binade_less_one)
qed

lemma fl_error_below_128:
  assumes "0 \<le> x" and "x \<le> 100"
  shows "\<bar>fl x - x\<bar> \<le> 1 / 2 ^ 47"
proof -
  have "x < 2 ^ 7" using assms(2) by simp
  then have "binade x \<le> 6" using binade_small [OF assms(1)] by fastforce
  then have "(2::real) powi (binade x - 53) \<le> 2 powi (- 47)"
    by (intro power_int_increasing) simp_all
  also have "\<dots> = 1 / 2 ^ 47" by (simp add: power_int_minus_divide)
  finally show ?thesis using fl_error [of x] by simp
qed


lemmas fl_eval = fl_def binade_def round_even_def Let_def exp_up.simps exp_down.simps

text \<open>The double that the JSON number 0.155 is read as.\<close>

lemma double_of_0_155: "fl (155 / 1000) = 5584463537939415 / 2 ^ 55"
  by (simp add: fl_eval)

section \<open>Remaining shelf life\<close>


lemma Math_round_round: "Math_round x = round x"
  by (simp add: Math_round_def round_def)





text \<open>
  The bound of the amended claim cannot be raised: sixteen hours above \<open>24 * 2 ^ 52\<close>
  lies a double whose quotient is rounded up to the next integer.
\<close>

lemma rslDays_above_bound:
  "is_double (24 * 2 ^ 52 + 16) \<and>
   rslDays (sample_state (1 / 2) 90 (24 * 2 ^ 52 + 16)) = Some (2 ^ 52 + 1) \<and>
   \<lfloor>(24 * 2 ^ 52 + 16 :: real) / 24\<rfloor> = 2 ^ 52"
  by (simp add: is_double_def rslDays_def rslHours_def opt_chain_def sample_state_def
        sample_response_def sample_prediction_def sample_raw_def Math_floor_def js_div_def
        fl_eval)



section \<open>Chronological order of the chart rows\<close>

declare reverse_loop.simps [simp del]

lemma length_reverse_loop: "length (reverse_loop xs l) = length xs"
proof (induction xs l rule: reverse_loop.induct)
  case (1 xs lower)
  show ?case
  proof (cases "lower < length xs div 2")
    case True
    then show ?thesis using 1 by (subst reverse_loop.simps) simp
  next
    case False
    then show ?thesis by (subst reverse_loop.simps) simp
  qed
qed

text \<open>
  What the swapping loop has done when it is started at \<open>l\<close>: the positions from \<open>l\<close> to
  its mirror image are exchanged, the others are as they were.
\<close>

lemma nth_reverse_loop:
  "i < length xs \<Longrightarrow>
   reverse_loop xs l ! i =
     (if l \<le> i \<and> i < length xs - l then xs ! (length xs - 1 - i) else xs ! i)"
proof (induction xs l arbitrary: i rule: reverse_loop.induct)
  case (1 xs lower)
  show ?case
  proof (cases "lower < length xs div 2")
    case True
    let ?ys = "xs[lower := xs ! (length xs - lower - 1), length xs - lower - 1 := xs ! lower]"
    have swapped: "reverse_loop xs lower = reverse_loop ?ys (lower + 1)"
      using True by (subst reverse_loop.simps) simp
    have rest: "reverse_loop ?ys (lower + 1) ! i =
          (if lower + 1 \<le> i \<and> i < length ?ys - (lower + 1)
           then ?ys ! (length ?ys - 1 - i) else ?ys ! i)"
      using 1 True by simp
    show ?thesis
      unfolding swapped rest using True "1.prems"
      by (auto simp: nth_list_update)
  next
    case False
    have "reverse_loop xs lower = xs"
      using False by (subst reverse_loop.simps) simp
    moreover have "lower \<le> i \<and> i < length xs - lower \<Longrightarrow> length xs - 1 - i = i"
      using False by linarith
    ultimately show ?thesis by auto
  qed
qed

lemma js_reverse_rev: "js_reverse xs = rev xs"
  by (rule nth_equalityI)
     (simp_all add: js_reverse_def length_reverse_loop nth_reverse_loop rev_nth)

lemma rowsAsc_store_eq: "rowsAsc_store h a = (h @ [rev (h ! a)], length h)"
  by (simp add: rowsAsc_store_def spread_def reverse_at_def js_reverse_rev)

lemma rowsAsc_rev: "rowsAsc s = rev (dataRows s)"
  by (simp add: rowsAsc_def rowsAsc_store_eq)

text \<open>
  C3. Building the chart rows from the array \<open>a\<close> of received rows gives a new array \<open>b\<close>
  whose contents are exactly the received list reversed: the same length, and at every
  index the whole row found at the mirrored index. The received array, like every other
  array of the store, keeps its contents. Reversing the chart rows again gives back the
  received list.
\<close>

theorem rowsAsc_pure_reversal:
  assumes "a < length h" and "rowsAsc_store h a = (h', b)"
  shows "h' ! b = rev (h ! a) \<and>
         length (h' ! b) = length (h ! a) \<and>
         (\<forall>i < length (h ! a). h' ! b ! i = h ! a ! (length (h ! a) - 1 - i)) \<and>
         b \<noteq> a \<and> (\<forall>c < length h. h' ! c = h ! c) \<and>
         (\<forall>h'' c. rowsAsc_store h' b = (h'', c) \<longrightarrow> h'' ! c = h ! a \<and> h'' ! a = h ! a) \<and>
         rowsAsc s = rev (dataRows s) \<and> rev (rowsAsc s) = dataRows s"
proof -
  have h': "h' = h @ [rev (h ! a)]" and b: "b = length h"
    using assms(2) by (auto simp: rowsAsc_store_eq)
  have reversed: "h' ! b = rev (h ! a)"
    by (simp add: h' b)
  have frame: "\<forall>c < length h. h' ! c = h ! c"
    by (simp add: h' nth_append)
  have pointwise: "\<forall>i < length (h ! a). h' ! b ! i = h ! a ! (length (h ! a) - 1 - i)"
    by (simp add: reversed rev_nth)
  have fresh: "b \<noteq> a"
    using assms(1) b by simp
  have twice: "\<forall>h'' c. rowsAsc_store h' b = (h'', c) \<longrightarrow> h'' ! c = h ! a \<and> h'' ! a = h ! a"
    using assms(1) by (auto simp: rowsAsc_store_eq h' b nth_append nth_list_update)
  show ?thesis
    using reversed frame pointwise fresh twice by (simp add: rowsAsc_rev)
qed

theorem rowsAsc_pure_reversal_witness:
  "(0::nat) < length [[sample_row 2 7, sample_row 1 5]] \<and>
   rowsAsc_store [[sample_row 2 7, sample_row 1 5]] 0 =
     ([[sample_row 2 7, sample_row 1 5], [sample_row 1 5, sample_row 2 7]], 1) \<and>
   [[sample_row 2 7, sample_row 1 5], [sample_row 1 5, sample_row 2 7]] ! 1 =
     rev ([[sample_row 2 7, sample_row 1 5]] ! 0)"
proof -
  have a: "(0::nat) < length [[sample_row 2 7, sample_row 1 5]]"
    by simp
  have b: "rowsAsc_store [[sample_row 2 7, sample_row 1 5]] 0 =
     ([[sample_row 2 7, sample_row 1 5], [sample_row 1 5, sample_row 2 7]], 1)"
    by (simp add: rowsAsc_store_def spread_def reverse_at_def js_reverse_def
          reverse_loop.simps)
  show ?thesis
    using rowsAsc_pure_reversal [OF a b] a b by blast
qed

section \<open>The newest row and the sensor cards\<close>

lemma sensorCard_empty:
  "dataRows s = [] \<Longrightarrow> \<not> loadingData s \<Longrightarrow> sensorCard f s = Inr em_dash"
  by (simp add: sensorCard_def latest_def)

lemma sensorCard_total: "\<exists>t. sensorCard f s = Inr t"
  by (cases "latest s") (simp_all add: sensorCard_def deref_def)

text \<open>
  C4. Once a successful sensor-data response with the row list \<open>rows\<close> has been handled,
  \<^verbatim>\<open>latest\<close> is the first row of that list, and it is missing exactly when the list is
  empty; with an empty list the temperature, humidity and the three gas cards each show
  the dash, and none of them throws.
\<close>

theorem latest_is_first_row:
  "latest (fetchDataRows_settle (Resolved (Some \<lparr>count = c, data = Some rows\<rparr>)) s) =
     (case rows of [] \<Rightarrow> None | r # rest \<Rightarrow> Some r) \<and>
   (latest (fetchDataRows_settle (Resolved (Some \<lparr>count = c, data = Some rows\<rparr>)) s) = None
      \<longleftrightarrow> rows = []) \<and>
   (rows = [] \<longrightarrow>
      temperatureCard B
        (fetchDataRows_settle (Resolved (Some \<lparr>count = c, data = Some rows\<rparr>)) s) =
          Inr em_dash \<and>
      humidityCard B
        (fetchDataRows_settle (Resolved (Some \<lparr>count = c, data = Some rows\<rparr>)) s) =
          Inr em_dash \<and>
      co2Card B
        (fetchDataRows_settle (Resolved (Some \<lparr>count = c, data = Some rows\<rparr>)) s) =
          Inr em_dash \<and>
      nh3Card B
        (fetchDataRows_settle (Resolved (Some \<lparr>count = c, data = Some rows\<rparr>)) s) =
          Inr em_dash \<and>
      ethanolCard B
        (fetchDataRows_settle (Resolved (Some \<lparr>count = c, data = Some rows\<rparr>)) s) =
          Inr em_dash)"
proof -
  let ?s = "fetchDataRows_settle (Resolved (Some \<lparr>count = c, data = Some rows\<rparr>)) s"
  have rows: "dataRows ?s = rows" and idle: "\<not> loadingData ?s"
    by (simp_all add: fetchDataRows_settle_def nullish_def opt_chain_def)
  have first: "latest ?s = (case rows of [] \<Rightarrow> None | r # rest \<Rightarrow> Some r)"
    by (simp add: latest_def rows)
  have missing: "latest ?s = None \<longleftrightarrow> rows = []"
    unfolding first by (cases rows) simp_all
  have cards: "sensorCard f ?s = Inr em_dash" if "rows = []" for f
    using that rows idle by (simp add: sensorCard_empty)
  show ?thesis
    using first missing cards
    by (simp add: temperatureCard_def humidityCard_def co2Card_def nh3Card_def
          ethanolCard_def)
qed

theorem latest_is_first_row_witness:
  "latest (fetchDataRows_settle (Resolved (Some \<lparr>count = Some 0, data = Some []\<rparr>))
      initialState) = None \<and>
   temperatureCard sample_builtins
     (fetchDataRows_settle (Resolved (Some \<lparr>count = Some 0, data = Some []\<rparr>))
        initialState) = Inr em_dash"
  using latest_is_first_row [of "Some 0" "[]" initialState sample_builtins] by simp

section \<open>Probability, confidence and missing prediction fields\<close>

lemma probabilityPct_no_prediction:
  "predict s = Some p \<Longrightarrow> prediction p = None \<Longrightarrow> probabilityPct s = Inl TypeError"
  by (simp add: probabilityPct_def deref_def)

lemma probabilityPct_present:
  "predict s = Some p \<Longrightarrow> prediction p = Some pr \<Longrightarrow>
   probabilityPct s = Inr (Some (Math_round (fl (or_num (probability pr) 0 * 100))))"
  by (simp add: probabilityPct_def deref_def js_mul_def)

lemma probabilityPct_no_response: "predict s = None \<Longrightarrow> probabilityPct s = Inr None"
  by (simp add: probabilityPct_def)

lemma or_num_zero: "or_num (Some q) 0 = q"
  by (simp add: or_num_def)

text \<open>
  C5. A prediction response without its optional fields should leave the probability,
  confidence and shelf-life derivations at a placeholder, without throwing. On a response
  body that has no \<^verbatim>\<open>prediction\<close> object the confidence, the shelf-life values and the
  classification do fall back (they use optional chaining), but \<^verbatim>\<open>probabilityPct\<close>
  throws a TypeError, and with it the component body.
\<close>

theorem probabilityPct_throws_without_prediction:
  "probabilityPct (fetchPredict_settle (Resolved (Some error_response)) initialState) =
     Inl TypeError \<and>
   statusLine sample_builtins
     (fetchPredict_settle (Resolved (Some error_response)) initialState) = Inl TypeError \<and>
   confidencePct (fetchPredict_settle (Resolved (Some error_response)) initialState) = None \<and>
   rslHours (fetchPredict_settle (Resolved (Some error_response)) initialState) = None \<and>
   rslDays (fetchPredict_settle (Resolved (Some error_response)) initialState) = None \<and>
   rslRemHours (fetchPredict_settle (Resolved (Some error_response)) initialState) = None \<and>
   classification_text_of (fetchPredict_settle (Resolved (Some error_response)) initialState) =
     em_dash"
  by (simp add: probabilityPct_def statusLine_def confidencePct_def rslHours_def rslDays_def
        rslRemHours_def classification_text_of_def error_response_def deref_def
        opt_chain_def nullish_def initialState_def fetchPredict_settle_def)

text \<open>A rounding error too small to reach a half-integer does not change the result.\<close>

lemma round_stable:
  assumes "\<bar>y - x\<bar> \<le> d" and "\<lfloor>x + 1 / 2 - d\<rfloor> = \<lfloor>x + 1 / 2 + d\<rfloor>"
  shows "round y = round (x::real)"
proof -
  have d0: "0 \<le> d" using assms(1) by linarith
  have "\<lfloor>x + 1 / 2 - d\<rfloor> \<le> \<lfloor>y + 1 / 2\<rfloor>" and "\<lfloor>y + 1 / 2\<rfloor> \<le> \<lfloor>x + 1 / 2 + d\<rfloor>"
    using assms(1) by (auto intro!: floor_mono simp: abs_le_iff)
  moreover have "\<lfloor>x + 1 / 2 - d\<rfloor> \<le> \<lfloor>x + 1 / 2\<rfloor>" and "\<lfloor>x + 1 / 2\<rfloor> \<le> \<lfloor>x + 1 / 2 + d\<rfloor>"
    using d0 by (auto intro!: floor_mono)
  ultimately show ?thesis
    using assms(2) by (simp add: round_def)
qed

text \<open>
  C8, as stated: for every probability \<open>p\<close> between 0 and 1 the percentage is
  \<open>round (p * 100)\<close>. It is not for the double that 0.155 is read as: the product is
  rounded to the double 15.5 before \<^verbatim>\<open>Math.round\<close>, and the page shows 16 where
  \<open>round (p * 100)\<close> is 15.
\<close>

theorem probability_rounding_counterexample:
  "is_double (5584463537939415 / 2 ^ 55) \<and>
   (0::real) \<le> 5584463537939415 / 2 ^ 55 \<and> (5584463537939415 / 2 ^ 55 :: real) \<le> 1 \<and>
   probabilityPct (sample_state (5584463537939415 / 2 ^ 55) 92 30) = Inr (Some 16) \<and>
   round (5584463537939415 / 2 ^ 55 * 100 :: real) = 15 \<and>
   probabilityPct (sample_state (5584463537939415 / 2 ^ 55) 92 30) \<noteq>
     Inr (Some (round (5584463537939415 / 2 ^ 55 * 100 :: real)))"
  by (simp add: is_double_def probabilityPct_def deref_def sample_state_def
        sample_response_def sample_prediction_def or_num_def js_mul_def Math_round_def
        round_def fl_eval)

text \<open>
  C8, amended. For a prediction with probability \<open>q\<close> between 0 and 1 and confidence \<open>c\<close>,
  the percentage is \<^verbatim>\<open>Math.round\<close> of the double product of \<open>q\<close> and 100. That product
  is within \<open>1 / 2 ^ 47\<close> of \<open>q * 100\<close>, so the percentage is \<open>round (q * 100)\<close> whenever
  \<open>q * 100\<close> is farther than that from every half-integer; 0.8734 (the decimal, and the
  double it is read as) gives 87. The confidence reaches the status line as it was
  received.
\<close>

theorem probability_confidence_format:
  assumes "predict s = Some p" and "prediction p = Some pr"
    and "probability pr = Some q" and "confidence pr = Some c"
    and "0 \<le> q" and "q \<le> 1"
  shows "probabilityPct s = Inr (Some (round (fl (q * 100)))) \<and>
         \<bar>fl (q * 100) - q * 100\<bar> \<le> 1 / 2 ^ 47 \<and>
         (\<lfloor>q * 100 + 1 / 2 - 1 / 2 ^ 47\<rfloor> = \<lfloor>q * 100 + 1 / 2 + 1 / 2 ^ 47\<rfloor> \<longrightarrow>
            probabilityPct s = Inr (Some (round (q * 100)))) \<and>
         confidencePct s = Some c \<and>
         (\<not> loadingPredict s \<longrightarrow>
            statusLine B s =
              Inr (''Prob: '' @ numToString B (of_int (round (fl (q * 100)))) @ ''% '' @
                   bullet @ '' Confidence: '' @ numToString B c @ ''%'')) \<and>
         (q = 8734 / 10000 \<longrightarrow> probabilityPct s = Inr (Some 87)) \<and>
         (q = fl (8734 / 10000) \<longrightarrow> probabilityPct s = Inr (Some 87))"
proof -
  have pp: "probabilityPct s = Inr (Some (round (fl (q * 100))))"
    using assms(1-3) by (simp add: probabilityPct_present or_num_zero Math_round_round)
  have cp: "confidencePct s = Some c"
    using assms(1,2,4) by (simp add: confidencePct_def opt_chain_def)
  have err: "\<bar>fl (q * 100) - q * 100\<bar> \<le> 1 / 2 ^ 47"
    using assms(5,6) by (intro fl_error_below_128) simp_all
  have stable: "round (fl (q * 100)) = round (q * 100)"
    if "\<lfloor>q * 100 + 1 / 2 - 1 / 2 ^ 47\<rfloor> = \<lfloor>q * 100 + 1 / 2 + 1 / 2 ^ 47\<rfloor>"
    using err that by (rule round_stable)
  have decimal: "round (fl (q * 100)) = 87" if "q = 8734 / 10000"
    unfolding that by (simp add: fl_eval round_def)
  have double: "round (fl (q * 100)) = 87" if "q = fl (8734 / 10000)"
    unfolding that by (simp add: fl_eval round_def)
  have line: "statusLine B s =
      Inr (''Prob: '' @ numToString B (of_int (round (fl (q * 100)))) @ ''% '' @
           bullet @ '' Confidence: '' @ numToString B c @ ''%'')" if "\<not> loadingPredict s"
    using that by (simp add: pp cp statusLine_def)
  show ?thesis
    unfolding pp using cp err stable decimal double line by blast
qed

theorem probability_confidence_format_witness:
  "(0::real) \<le> 8734 / 10000 \<and> (8734 / 10000 :: real) \<le> 1 \<and>
   probabilityPct (sample_state (8734 / 10000) 92 30) = Inr (Some 87) \<and>
   confidencePct (sample_state (8734 / 10000) 92 30) = Some 92"
proof -
  have a: "predict (sample_state (8734 / 10000) 92 30) =
      Some (sample_response (8734 / 10000) 92 30)"
    by (simp add: sample_state_def)
  have b: "prediction (sample_response (8734 / 10000) 92 30) =
      Some (sample_prediction (8734 / 10000) 92 30)"
    by (simp add: sample_response_def)
  have c: "probability (sample_prediction (8734 / 10000) 92 30) = Some (8734 / 10000)"
    by (simp add: sample_prediction_def)
  have d: "confidence (sample_prediction (8734 / 10000) 92 30) = Some 92"
    by (simp add: sample_prediction_def)
  have e: "(0::real) \<le> 8734 / 10000" and f: "(8734 / 10000 :: real) \<le> 1"
    by simp_all
  show ?thesis
    using probability_confidence_format [OF a b c d e f, of sample_builtins] e f by blast
qed

section \<open>Gas series\<close>

lemma dataRows_step:
  "dataRows (step e s) = (case rows_of e of Some rows \<Rightarrow> rows | None \<Rightarrow> dataRows s)"
  by (cases e rule: rows_of.cases) (simp_all add: poller_defs split: axios_result.splits)

lemma dataRows_run:
  "dataRows (run es s) = (case last_rows es of Some rows \<Rightarrow> rows | None \<Rightarrow> dataRows s)"
  by (induction es arbitrary: s) (simp_all add: dataRows_step split: option.splits)

text \<open>
  C9. Each of the three gas series is the chronological row sequence mapped row by row
  to the pair of the formatted timestamp and that gas's value, so each has one pair per
  row; after any history of the page the length of each series is the number of rows of
  the most recent successful sensor-data response (zero before the first one).
\<close>

theorem gas_series_extraction:
  "co2Series B s =
     map (\<lambda>r. (toLocaleTimeString B (timestamp r), ppm_co2 r)) (rev (dataRows s)) \<and>
   nh3Series B s =
     map (\<lambda>r. (toLocaleTimeString B (timestamp r), ppm_nh3 r)) (rev (dataRows s)) \<and>
   ethanolSeries B s =
     map (\<lambda>r. (toLocaleTimeString B (timestamp r), ppm_c2h5oh r)) (rev (dataRows s)) \<and>
   length (co2Series B s) = length (dataRows s) \<and>
   length (nh3Series B s) = length (dataRows s) \<and>
   length (ethanolSeries B s) = length (dataRows s) \<and>
   length (co2Series B (run es initialState)) =
     length (case last_rows es of Some rows \<Rightarrow> rows | None \<Rightarrow> []) \<and>
   length (nh3Series B (run es initialState)) =
     length (case last_rows es of Some rows \<Rightarrow> rows | None \<Rightarrow> []) \<and>
   length (ethanolSeries B (run es initialState)) =
     length (case last_rows es of Some rows \<Rightarrow> rows | None \<Rightarrow> [])"
  by (simp add: co2Series_def nh3Series_def ethanolSeries_def rowsAsc_rev dataRows_run
        initialState_def split: option.splits)

section \<open>The shared error message\<close>

lemma errorMsg_step:
  "errorMsg (step e s) = (case failure_of e of Some m \<Rightarrow> Some m | None \<Rightarrow> errorMsg s)"
  by (cases e rule: failure_of.cases) (simp_all add: poller_defs)

lemma errorMsg_run:
  "errorMsg (run es s) = (case last_failure es of Some m \<Rightarrow> Some m | None \<Rightarrow> errorMsg s)"
  by (induction es arbitrary: s) (simp_all add: errorMsg_step split: option.splits)

text \<open>
  C6, as stated: the error message goes away when the source that failed succeeds again.
  It does not: after a failed and then a successful sensor-data request the message is
  still there.
\<close>

theorem error_cleared_counterexample:
  "errorMsg (run [DataSettle (Rejected ''Network Error''),
                  DataSettle (Resolved (Some \<lparr>count = Some 0, data = Some []\<rparr>))]
              initialState) \<noteq> None"
  by (simp add: poller_defs initialState_def)

text \<open>
  C6, amended. After any history the error message is the message of the most recent
  failure of that history, or what it was before when the history has no failure. No
  success of either source and no request start changes it, so a message once set is
  never cleared.
\<close>

theorem error_message_lifecycle:
  "errorMsg (run es s) = (case last_failure es of Some m \<Rightarrow> Some m | None \<Rightarrow> errorMsg s) \<and>
   errorMsg (step (DataSettle (Resolved db)) s) = errorMsg s \<and>
   errorMsg (step (PredictSettle (Resolved pb)) s) = errorMsg s \<and>
   errorMsg (step DataStart s) = errorMsg s \<and>
   errorMsg (step PredictStart s) = errorMsg s \<and>
   (errorMsg s \<noteq> None \<longrightarrow> errorMsg (run es s) \<noteq> None)"
  by (simp add: errorMsg_run poller_defs split: option.splits)

theorem error_message_lifecycle_witness:
  "errorMsg (step (DataSettle (Rejected ''timeout of 10000ms exceeded'')) initialState)
     \<noteq> None \<and>
   errorMsg (run [PredictSettle (Resolved (Some (sample_response (1 / 2) 90 30))),
                  DataSettle (Resolved (Some \<lparr>count = Some 0, data = Some []\<rparr>))]
              (step (DataSettle (Rejected ''timeout of 10000ms exceeded'')) initialState))
     = Some ''timeout of 10000ms exceeded''"
  using error_message_lifecycle
    [of "[PredictSettle (Resolved (Some (sample_response (1 / 2) 90 30))),
          DataSettle (Resolved (Some \<lparr>count = Some 0, data = Some []\<rparr>))]"
        "step (DataSettle (Rejected ''timeout of 10000ms exceeded'')) initialState"]
  by (simp add: poller_defs initialState_def)

section \<open>A sensor-data response without its data field\<close>



section \<open>Query parameters\<close>

lemma requests_of_cases:
  "r \<in> set (requests_of env_K e) \<Longrightarrow> r = dataRequest env_K \<or> r = predictRequest"
  by (cases e) simp_all

lemma issued_cases:
  "r \<in> set (issued env_K es) \<Longrightarrow> r = dataRequest env_K \<or> r = predictRequest"
  unfolding issued_def by (auto dest: requests_of_cases)

text \<open>
  C10. Every sensor-data request carries \<^verbatim>\<open>limit=50\<close> and a second parameter \<^verbatim>\<open>k\<close>,
  whose value is the environment variable \<^verbatim>\<open>NEXT_PUBLIC_K\<close>, or the hard-coded default
  when the variable is unset (or empty); prediction requests carry no parameter. So the
  parameters of a sensor-data request are not \<^verbatim>\<open>limit=50\<close> alone.
\<close>

theorem data_request_carries_k:
  "params (dataRequest env_K) = [(''limit'', PNum 50), (''k'', PStr (K_PARAM env_K))] \<and>
   path (dataRequest env_K) = ''/data'' \<and>
   K_PARAM None = K_default \<and>
   K_PARAM (Some v) = (if v = [] then K_default else v) \<and>
   K_default = ''ggodjob gpt terbaik, i trust you'' \<and>
   params predictRequest = [] \<and> path predictRequest = ''/predict'' \<and>
   params (dataRequest env_K) \<noteq> [(''limit'', PNum 50)] \<and>
   (\<forall>r \<in> set (issued env_K es).
      (path r = ''/data'' \<longrightarrow>
         params r = [(''limit'', PNum 50), (''k'', PStr (K_PARAM env_K))]) \<and>
      (path r = ''/predict'' \<longrightarrow> params r = []))"
proof -
  have reqs: "\<forall>r \<in> set (issued env_K es).
      (path r = ''/data'' \<longrightarrow>
         params r = [(''limit'', PNum 50), (''k'', PStr (K_PARAM env_K))]) \<and>
      (path r = ''/predict'' \<longrightarrow> params r = [])"
  proof
    fix r
    assume "r \<in> set (issued env_K es)"
    then consider "r = dataRequest env_K" | "r = predictRequest"
      using issued_cases by blast
    then show "(path r = ''/data'' \<longrightarrow>
          params r = [(''limit'', PNum 50), (''k'', PStr (K_PARAM env_K))]) \<and>
        (path r = ''/predict'' \<longrightarrow> params r = [])"
      by cases (simp_all add: dataRequest_def predictRequest_def)
  qed
  have kvals: "K_PARAM None = K_default"
    "K_PARAM (Some v) = (if v = [] then K_default else v)"
    "K_default = ''ggodjob gpt terbaik, i trust you''"
    by (simp_all add: K_PARAM_def or_str_def K_default_def)
  have shape:
    "params (dataRequest env_K) = [(''limit'', PNum 50), (''k'', PStr (K_PARAM env_K))]"
    "path (dataRequest env_K) = ''/data''"
    "params predictRequest = []" "path predictRequest = ''/predict''"
    by (simp_all add: dataRequest_def predictRequest_def)
  have differs: "params (dataRequest env_K) \<noteq> [(''limit'', PNum 50)]"
    by (simp add: dataRequest_def)
  show ?thesis
    using reqs kvals shape differs by blast
qed

theorem data_request_carries_k_witness:
  "dataRequest None \<in> set (issued None (tick True (Rejected ''x'') (Rejected ''y''))) \<and>
   path (dataRequest None) = ''/data'' \<and>
   params (dataRequest None) =
     [(''limit'', PNum 50), (''k'', PStr ''ggodjob gpt terbaik, i trust you'')]"
proof -
  have a: "dataRequest None \<in> set (issued None (tick True (Rejected ''x'') (Rejected ''y'')))"
    by (simp add: issued_def tick_def)
  show ?thesis
    using data_request_carries_k [of None "[]" "tick True (Rejected ''x'') (Rejected ''y'')"] a
    by (simp add: K_PARAM_def or_str_def K_default_def dataRequest_def)
qed

end
